theory Spec2Isabelle
  imports Complex_Main "HOL-Library.Word" "HOL-Library.Log_Nat"
begin

unbundle bit_operations_syntax

section \<open>RTP sequence tracking (internal/rtp/seq.go)\<close>

text \<open>
  The Go struct \<open>SeqTracker\<close> with its machine integers: \<open>uint16\<close>, \<open>uint32\<close> and
  \<open>uint64\<close> fields are words of that width, so every \<open>+\<close> and \<open>-\<close> below wraps as
  in Go. The mutex only serialises callers and is not part of the state.
\<close>

type_synonym uint8 = "8 word"
type_synonym uint16 = "16 word"
type_synonym uint32 = "32 word"
type_synonym uint64 = "64 word"

record SeqTracker =
  initialized :: bool
  lastSeq :: uint16
  totalLost :: uint64
  totalPkts :: uint64
  cycles :: uint32
  maxSeq :: uint32
  baseSeq :: uint32
  badSeq :: uint32
  probation :: int

definition NewSeqTracker :: SeqTracker where
  "NewSeqTracker =
     \<lparr>initialized = False, lastSeq = 0, totalLost = 0, totalPkts = 0, cycles = 0,
      maxSeq = 0, baseSeq = 0, badSeq = 0, probation = 0\<rparr>"

definition initSequence :: "SeqTracker \<Rightarrow> uint16 \<Rightarrow> SeqTracker" where
  "initSequence s seq =
     s\<lparr>baseSeq := ucast seq, maxSeq := ucast seq, lastSeq := seq,
       badSeq := ucast seq + 1, cycles := 0, initialized := True, totalPkts := 1\<rparr>"

text \<open>
  \<open>updateSequence\<close>, branch by branch. The pair \<open>(s1, lost)\<close> is the tracker and the
  local \<open>lost\<close> when control reaches the two unconditional statements at the end of
  the Go function (\<open>s.lastSeq = seq\<close> and \<open>s.totalPkts++\<close>).
\<close>

definition updateSequence :: "SeqTracker \<Rightarrow> uint16 \<Rightarrow> SeqTracker \<times> uint64" where
  "updateSequence s seq =
     (let udelta = seq - lastSeq s;
          (s1, lost) =
            (if udelta < 0x8000 then
               (if 0 < udelta then
                  (let (sa, l) =
                         (if 1 < udelta
                          then (s\<lparr>totalLost := totalLost s + ucast (udelta - 1)\<rparr>,
                                ucast (udelta - 1))
                          else (s, 0));
                       sb = (if seq < lastSeq sa then sa\<lparr>cycles := cycles sa + 1\<rparr> else sa)
                   in (sb\<lparr>maxSeq := push_bit 16 (cycles sb) OR ucast seq\<rparr>, l))
                else (s, 0))
             else
               (if lastSeq s - seq < 0x8000 then (s, 0)
                else
                  (let sa = s\<lparr>cycles := cycles s + 1\<rparr>;
                       sb = sa\<lparr>maxSeq := push_bit 16 (cycles sa) OR ucast seq\<rparr>;
                       actualDelta = (0x10000 - ucast (lastSeq sb)) + ucast seq :: uint32
                   in if 1 < actualDelta
                      then (sb\<lparr>totalLost := totalLost sb + ucast (actualDelta - 1)\<rparr>,
                            ucast (actualDelta - 1))
                      else (sb, 0))))
      in (s1\<lparr>lastSeq := seq, totalPkts := totalPkts s1 + 1\<rparr>, lost))"

definition Push :: "SeqTracker \<Rightarrow> uint16 \<Rightarrow> SeqTracker \<times> uint64" where
  "Push s seq = (if \<not> initialized s then (initSequence s seq, 0) else updateSequence s seq)"

text \<open>A stream of sequence numbers pushed in order into one tracker.\<close>

fun pushes :: "SeqTracker \<Rightarrow> uint16 list \<Rightarrow> SeqTracker" where
  "pushes s [] = s"
| "pushes s (x # xs) = pushes (fst (Push s x)) xs"

record Stats =
  Packets_stats :: uint64
  Lost_stats :: uint64
  LastSeq_stats :: uint16
  Cycles_stats :: uint32

definition GetStats :: "SeqTracker \<Rightarrow> Stats" where
  "GetStats s =
     \<lparr>Packets_stats = totalPkts s, Lost_stats = totalLost s,
      LastSeq_stats = lastSeq s, Cycles_stats = cycles s\<rparr>"

section \<open>The aggregator (internal/rtp/seq.go)\<close>

text \<open>
  Three \<open>atomic.Uint64\<close> counters. The aggregator is shared by pointer, so the
  functions that touch it take it and return it next to the client.
\<close>

record Aggregator =
  packets :: uint64
  lost :: uint64
  bytes :: uint64

definition NewAggregator :: Aggregator where
  "NewAggregator = \<lparr>packets = 0, lost = 0, bytes = 0\<rparr>"

definition AddPackets :: "Aggregator \<Rightarrow> uint64 \<Rightarrow> Aggregator" where
  "AddPackets a n = (if 0 < n then a\<lparr>packets := packets a + n\<rparr> else a)"

definition AddLoss :: "Aggregator \<Rightarrow> uint64 \<Rightarrow> Aggregator" where
  "AddLoss a n = (if 0 < n then a\<lparr>lost := lost a + n\<rparr> else a)"

definition AddBytes :: "Aggregator \<Rightarrow> uint64 \<Rightarrow> Aggregator" where
  "AddBytes a n = (if 0 < n then a\<lparr>bytes := bytes a + n\<rparr> else a)"

record Snapshot =
  Packets :: uint64
  Lost :: uint64
  Bytes :: uint64

definition Snapshot_of :: "Aggregator \<Rightarrow> Snapshot" where
  "Snapshot_of a = \<lparr>Packets = packets a, Lost = lost a, Bytes = bytes a\<rparr>"

section \<open>Go's float64 arithmetic\<close>

text \<open>
  A finite \<open>float64\<close> is the rational it denotes. Every arithmetic operation of Go
  returns the exact result rounded to the nearest value with a 53-bit significand, ties
  to the even significand: \<open>f64_round\<close>. The exponent is not bounded here; all values
  computed below lie far inside the normal range of binary64, where this is IEEE 754
  rounding. \<open>ilog2 x\<close> is the integer part of the binary logarithm of a positive \<open>x\<close>.
\<close>

type_synonym float64 = rat

definition round_half_even :: "rat \<Rightarrow> int" where
  "round_half_even x =
     (let f = \<lfloor>x\<rfloor>; d = x - of_int f
      in if d < 1 / 2 then f else if 1 / 2 < d then f + 1 else if even f then f else f + 1)"

definition pow2 :: "int \<Rightarrow> rat" where
  "pow2 e = (if 0 \<le> e then 2 ^ nat e else 1 / 2 ^ nat (- e))"

definition ilog2 :: "rat \<Rightarrow> int" where
  "ilog2 x = (if 1 \<le> x then bitlen \<lfloor>x\<rfloor> - 1 else - bitlen (\<lceil>1 / x\<rceil> - 1))"

definition f64_round :: "rat \<Rightarrow> float64" where
  "f64_round x =
     (if x = 0 then 0
      else let e = ilog2 \<bar>x\<bar> - 52
           in sgn x * of_int (round_half_even (\<bar>x\<bar> / pow2 e)) * pow2 e)"

definition f64_add :: "float64 \<Rightarrow> float64 \<Rightarrow> float64" where
  "f64_add a b = f64_round (a + b)"

definition f64_sub :: "float64 \<Rightarrow> float64 \<Rightarrow> float64" where
  "f64_sub a b = f64_round (a - b)"

definition f64_mul :: "float64 \<Rightarrow> float64 \<Rightarrow> float64" where
  "f64_mul a b = f64_round (a * b)"

text \<open>
  Division by zero does not panic on floats: it yields an infinity or a NaN, which is
  not a rational. \<open>None\<close> stands for that non-finite result.
\<close>

definition f64_div :: "float64 \<Rightarrow> float64 \<Rightarrow> float64 option" where
  "f64_div a b = (if b = 0 then None else Some (f64_round (a / b)))"

text \<open>
  The conversions \<open>float64(n)\<close> of an integer and \<open>int64(x)\<close> of a float. The latter
  truncates towards zero. For a value that no \<open>int64\<close> represents Go leaves the result
  to the implementation; on amd64 it is the smallest \<open>int64\<close>, which is the value
  taken here. Go's \<open>int\<close> is the same 64-bit type on that platform.
\<close>

definition f64_of_uint64 :: "uint64 \<Rightarrow> float64" where
  "f64_of_uint64 n = f64_round (of_nat (unat n))"

definition f64_of_int :: "int \<Rightarrow> float64" where
  "f64_of_int n = f64_round (of_int n)"

definition int64_of_f64 :: "float64 \<Rightarrow> int" where
  "int64_of_f64 x =
     (let t = (if 0 \<le> x then \<lfloor>x\<rfloor> else \<lceil>x\<rceil>)
      in if - (2 ^ 63) \<le> t \<and> t < 2 ^ 63 then t else - (2 ^ 63))"

section \<open>Snapshot.LossRate\<close>

definition LossRate :: "Snapshot \<Rightarrow> float64 option" where
  "LossRate s =
     (let total = Packets s + Lost s
      in if total = 0 then Some 0
         else f64_div (f64_mul (f64_of_uint64 (Lost s)) 100) (f64_of_uint64 total))"

section \<open>The RTSP client's media path\<close>

text \<open>
  The fields of \<open>Client\<close> that the media path reads or writes. \<open>reader\<close> is the
  buffered reader of the control connection, as the bytes not yet consumed; the end of
  the list is the end of the stream. The aggregator handle is the shared
  \<open>Aggregator\<close> passed alongside.
\<close>

record Client =
  transport :: string
  session :: string
  cseq :: int
  reader :: "uint8 list"
  tracker :: SeqTracker
  closed :: bool
  bytesReceived :: uint64
  packetsRcvd :: uint64

text \<open>
  The client that \<open>NewClient\<close> returns for a URL that parses with the scheme
  \<open>rtsp\<close> or \<open>rtsps\<close>; \<open>tr\<close> is the transport argument in lower case, and the
  empty string selects \<open>tcp\<close>. No connection is open yet, so nothing is readable.
\<close>

definition NewClient :: "string \<Rightarrow> Client" where
  "NewClient tr =
     \<lparr>transport = (if tr = [] then ''tcp'' else tr), session = [], cseq = 1, reader = [],
      tracker = NewSeqTracker, closed = False, bytesReceived = 0, packetsRcvd = 0\<rparr>"

text \<open>\<open>binary.BigEndian.Uint16(b)\<close> is \<open>uint16(b[1]) | uint16(b[0])<<8\<close>.\<close>

definition BigEndian_Uint16 :: "uint8 list \<Rightarrow> uint16" where
  "BigEndian_Uint16 b = ucast (b ! 1) OR push_bit 8 (ucast (b ! 0))"

definition processRTPPacket :: "Client \<Rightarrow> Aggregator \<Rightarrow> uint8 list \<Rightarrow> Client \<times> Aggregator" where
  "processRTPPacket c agg data =
     (if length data < 12 then (c, agg)
      else
        (let seq = BigEndian_Uint16 (take 2 (drop 2 data));
             (t, l) = Push (tracker c) seq;
             c1 = c\<lparr>tracker := t, packetsRcvd := packetsRcvd c + 1\<rparr>;
             agg1 = (if 0 < l then AddLoss agg l else agg);
             agg2 = AddPackets agg1 1
         in (c1\<lparr>bytesReceived := bytesReceived c1 + of_nat (length data)\<rparr>, agg2)))"




definition reportStats :: "Client \<Rightarrow> Aggregator \<Rightarrow> Aggregator" where
  "reportStats c agg =
     (let stats = GetStats (tracker c)
      in if 0 < Lost_stats stats then AddLoss agg (Lost_stats stats) else agg)"

text \<open>
  The media loop of \<open>runUDP\<close> up to cancellation: every datagram of at least 12 bytes
  goes to \<open>processRTPPacket\<close>, and when the context is done the loop calls
  \<open>reportStats\<close> and returns. \<open>runTCP\<close> ends the same way.
\<close>

fun processDatagrams :: "Client \<Rightarrow> Aggregator \<Rightarrow> uint8 list list \<Rightarrow> Client \<times> Aggregator" where
  "processDatagrams c agg [] = (c, agg)"
| "processDatagrams c agg (d # ds) =
     (if 12 \<le> length d
      then (case processRTPPacket c agg d of (c1, agg1) \<Rightarrow> processDatagrams c1 agg1 ds)
      else processDatagrams c agg ds)"

definition runUDP :: "Client \<Rightarrow> Aggregator \<Rightarrow> uint8 list list \<Rightarrow> Client \<times> Aggregator" where
  "runUDP c agg ds = (case processDatagrams c agg ds of (c1, agg1) \<Rightarrow> (c1, reportStats c1 agg1))"

text \<open>An RTP packet of twelve bytes carrying the sequence number \<open>seq\<close>.\<close>

definition rtp_packet :: "uint16 \<Rightarrow> uint8 list" where
  "rtp_packet seq = [0x80, 0x60, ucast (drop_bit 8 seq), ucast seq, 0, 0, 0, 0, 0, 0, 0, 0]"

section \<open>The orchestrator (package bench)\<close>

text \<open>
  \<open>Config\<close>: \<open>Readers\<close> and \<open>AvgConnections\<close> are Go \<open>int\<close>s, \<open>Duration\<close> is a
  \<open>time.Duration\<close> (an \<open>int64\<close> count of nanoseconds), \<open>Rate\<close> and \<open>Variance\<close> are
  \<open>float64\<close>.
\<close>

record Config =
  URL :: string
  Readers :: int
  Duration :: int
  Rate :: float64
  Transport :: string
  RealWorld :: bool
  AvgConnections :: int
  Variance :: float64

text \<open>Go's integer division truncates towards zero.\<close>

definition go_quot :: "int \<Rightarrow> int \<Rightarrow> int" where
  "go_quot a b = sgn a * sgn b * (\<bar>a\<bar> div \<bar>b\<bar>)"

text \<open>
  What \<open>NewRunner\<close> computes before it builds the runner: the burst of the rate limiter
  and \<open>maxConcurrent\<close>, the capacity of the semaphore channel.
\<close>

definition NewRunner_burst :: "Config \<Rightarrow> int" where
  "NewRunner_burst config =
     (let burst = (if 100 < Rate config
                   then int64_of_f64 (f64_round (Rate config / 10)) else 10)
      in if 100 < burst then 100 else burst)"

definition NewRunner_maxConcurrent :: "Config \<Rightarrow> int" where
  "NewRunner_maxConcurrent config =
     (if 10000 < Readers config
      then (let maxConcurrent = go_quot (Readers config) 10
            in if 50000 < maxConcurrent then 50000 else maxConcurrent)
      else 10000)"

text \<open>The cap as the specification words it: \<open>clamp(N/10, 10 000, 50 000)\<close>.\<close>

definition clamp :: "int \<Rightarrow> int \<Rightarrow> int \<Rightarrow> int" where
  "clamp x lo hi = (if x < lo then lo else if hi < x then hi else x)"

definition spec_concurrency_cap :: "int \<Rightarrow> int" where
  "spec_concurrency_cap N = clamp (go_quot N 10) 10000 50000"

section \<open>The real-world simulator (package bench)\<close>

text \<open>
  \<open>adjustTargetLoad\<close>: the value it stores in \<open>targetConnects\<close>, as a function of the
  configuration, of \<open>time.Now().Hour()\<close> and of the draw \<open>rand.Float64()\<close>. The
  decimal literals are the nearest \<open>float64\<close> values.
\<close>

definition dayFactor :: "int \<Rightarrow> float64" where
  "dayFactor hour =
     (if 9 \<le> hour \<and> hour \<le> 11 then f64_round (12 / 10)
      else if 12 \<le> hour \<and> hour \<le> 13 then f64_round (9 / 10)
      else if 14 \<le> hour \<and> hour \<le> 17 then f64_round (11 / 10)
      else if 18 \<le> hour \<and> hour \<le> 22 then f64_round (13 / 10)
      else if 23 \<le> hour \<or> hour \<le> 5 then f64_round (6 / 10)
      else f64_round (8 / 10))"

definition adjustTargetLoad :: "Config \<Rightarrow> int \<Rightarrow> float64 \<Rightarrow> int" where
  "adjustTargetLoad config hour u =
     (let avg = f64_of_int (AvgConnections config);
          variance = Variance config;
          randomFactor = f64_add 1 (f64_mul (f64_sub u (1 / 2)) variance);
          newTarget = int64_of_f64 (f64_mul (f64_mul avg (dayFactor hour)) randomFactor);
          minTarget = int64_of_f64 (f64_mul avg (f64_sub 1 variance));
          maxTarget = int64_of_f64 (f64_mul avg (f64_add 1 variance));
          newTarget = (if newTarget < minTarget then minTarget else newTarget);
          newTarget = (if maxTarget < newTarget then maxTarget else newTarget)
      in newTarget)"

text \<open>
  The lifetime drawn in \<open>addConnection\<close>. \<open>rand.Int63n(n)\<close> panics for \<open>n \<le> 0\<close> and
  otherwise returns a value of \<open>[0, n)\<close> fixed by the state of the generator; \<open>raw\<close>
  stands for that state, and every value of the interval is the result for some \<open>raw\<close>.
  Durations are nanoseconds.
\<close>

definition Second :: int where
  "Second = 1000000000"

definition Minute :: int where
  "Minute = 60 * Second"

definition Int63n :: "int \<Rightarrow> int \<Rightarrow> int option" where
  "Int63n raw n = (if n \<le> 0 then None else Some (raw mod n))"

definition addConnection_duration :: "Config \<Rightarrow> int \<Rightarrow> int option" where
  "addConnection_duration config raw =
     (let minDuration = 30 * Second;
          maxDuration = Duration config;
          maxDuration = (if maxDuration \<le> minDuration then 5 * Minute else maxDuration);
          durationRange = maxDuration - minDuration;
          durationRange = (if durationRange \<le> 0 then 4 * Minute + 30 * Second
                           else durationRange)
      in case Int63n raw durationRange of
           None \<Rightarrow> None
         | Some r \<Rightarrow> Some (minDuration + r))"

text \<open>A configuration of the real-world mode: 500 connections on average, variance 0.3.\<close>

definition example_config :: Config where
  "example_config =
     \<lparr>URL = ''rtsp://127.0.0.1:8554/test'', Readers = 1000, Duration = 60 * Second,
      Rate = 100, Transport = ''tcp'', RealWorld = True, AvgConnections = 500,
      Variance = f64_round (3 / 10)\<rparr>"

section \<open>Sequence tracker: helper facts\<close>

lemma neg_mod_65536: "0 < (x::int) \<Longrightarrow> x < 65536 \<Longrightarrow> (- x) mod 65536 = 65536 - x"
  by (simp add: zmod_zminus1_eq_if)

lemma uminus_backward:
  fixes d :: uint16
  assumes "0x8000 < d"
  shows "- d < 0x8000"
proof -
  have lo: "32768 < uint d" using assms by (simp add: word_less_def)
  have hi: "uint d < 65536" using uint_bounded [of d] by simp
  have "uint (- d) = (- uint d) mod 65536" by (simp add: uint_word_ariths)
  also have "\<dots> = 65536 - uint d" using lo hi by (simp add: neg_mod_65536)
  finally show ?thesis using lo by (simp add: word_less_def)
qed

lemma Push_initialized: "initialized (fst (Push s x))"
  by (simp add: Push_def initSequence_def updateSequence_def Let_def split: prod.splits)

lemma Push_duplicate:
  "initialized s \<Longrightarrow> Push s (lastSeq s) = (s\<lparr>totalPkts := totalPkts s + 1\<rparr>, 0)"
  by (simp add: Push_def updateSequence_def)

lemma Push_totalPkts_shift:
  "initialized s \<Longrightarrow>
   Push (s\<lparr>totalPkts := totalPkts s + k\<rparr>) x =
     ((fst (Push s x))\<lparr>totalPkts := totalPkts (fst (Push s x)) + k\<rparr>, snd (Push s x))"
  by (simp add: Push_def updateSequence_def Let_def add.commute add.left_commute)

lemma pushes_totalPkts_shift:
  "initialized s \<Longrightarrow>
   pushes (s\<lparr>totalPkts := totalPkts s + k\<rparr>) ys =
     (pushes s ys)\<lparr>totalPkts := totalPkts (pushes s ys) + k\<rparr>"
proof (induction ys arbitrary: s)
  case Nil
  then show ?case by simp
next
  case (Cons y ys)
  have "pushes (s\<lparr>totalPkts := totalPkts s + k\<rparr>) (y # ys) =
        pushes ((fst (Push s y))\<lparr>totalPkts := totalPkts (fst (Push s y)) + k\<rparr>) ys"
    using Cons.prems by (simp add: Push_totalPkts_shift)
  also have "\<dots> =
      (pushes (fst (Push s y)) ys)\<lparr>totalPkts := totalPkts (pushes (fst (Push s y)) ys) + k\<rparr>"
    by (rule Cons.IH) (rule Push_initialized)
  finally show ?case by simp
qed

lemma pushes_append: "pushes s (xs @ ys) = pushes (pushes s xs) ys"
  by (induction xs arbitrary: s) simp_all

lemma pushes_initialized: "initialized s \<or> xs \<noteq> [] \<Longrightarrow> initialized (pushes s xs)"
proof (induction xs arbitrary: s)
  case Nil
  then show ?case by simp
next
  case (Cons x xs)
  have "initialized (pushes (fst (Push s x)) xs)"
    by (rule Cons.IH) (simp add: Push_initialized)
  then show ?case by simp
qed

section \<open>Sequence tracker: the backward region\<close>

text \<open>
  The state after a push whose delta is above \<open>0x8000\<close>: none of the branches of
  \<open>updateSequence\<close> changes anything, and the two statements at its end store \<open>seq\<close>
  in \<open>lastSeq\<close> and count the packet.
\<close>

lemma Push_backward_state:
  assumes "initialized s" and "0x8000 < seq - lastSeq s"
  shows "Push s seq = (s\<lparr>lastSeq := seq, totalPkts := totalPkts s + 1\<rparr>, 0)"
proof -
  have fwd: "\<not> seq - lastSeq s < 0x8000"
    using assms(2) by simp
  have "lastSeq s - seq = - (seq - lastSeq s)"
    by simp
  then have bwd: "lastSeq s - seq < 0x8000"
    using uminus_backward [OF assms(2)] by simp
  show ?thesis
    using assms(1) fwd bwd by (simp add: Push_def updateSequence_def)
qed

text \<open>
  Storing the late sequence number in \<open>lastSeq\<close> makes the next packet in order look
  like a jump: streams in which every packet arrives, one of them late, end with loss
  booked, and a late packet around the wrap is counted as a second cycle.
\<close>

lemma late_packet_books_loss:
  "totalLost (pushes NewSeqTracker [100, 99, 101]) = 1"
  "totalLost (pushes NewSeqTracker [100, 102, 101, 103]) = 2"
  "cycles (pushes NewSeqTracker [65534, 0, 65535, 1]) = 2"
  by code_simp+

text \<open>
  C1, as the specification states it, fails. After 100, a push of 99 leaves
  \<open>lastSeq = 99\<close> and \<open>totalPkts = 2\<close>: the packet is counted and \<open>last_seq\<close> has moved.
  At the delta \<open>0x8000\<close> itself (last 0x8000, pushed 0) the push returns 0x7FFF lost
  packets and adds them to \<open>totalLost\<close>.
\<close>

theorem C1_backward_counterexample:
  "lastSeq (fst (Push (fst (Push NewSeqTracker 100)) 99)) = 99 \<and>
   totalPkts (fst (Push NewSeqTracker 100)) = 1 \<and>
   totalPkts (fst (Push (fst (Push NewSeqTracker 100)) 99)) = 2 \<and>
   (0 :: uint16) - lastSeq (fst (Push NewSeqTracker 0x8000)) = 0x8000 \<and>
   snd (Push (fst (Push NewSeqTracker 0x8000)) 0) = 0x7FFF \<and>
   totalLost (fst (Push (fst (Push NewSeqTracker 0x8000)) 0)) = 0x7FFF"
  by code_simp

text \<open>
  C1, amended. For every initialized tracker and every pushed \<open>seq\<close> whose delta
  \<open>(seq - last_seq) mod 2^16\<close> is above \<open>0x8000\<close>, \<open>Push\<close> returns 0, leaves
  \<open>totalLost\<close> as it was and adds one to \<open>totalPkts\<close>: the late packet is counted as
  a packet and not as a loss. Nothing is said about \<open>last_seq\<close>.
\<close>

theorem C1_backward_push:
  assumes "initialized s" and "0x8000 < seq - lastSeq s"
  shows "snd (Push s seq) = 0 \<and>
         totalLost (fst (Push s seq)) = totalLost s \<and>
         totalPkts (fst (Push s seq)) = totalPkts s + 1"
  by (simp add: Push_backward_state [OF assms])

theorem C1_backward_push_witness:
  "initialized (fst (Push NewSeqTracker 100)) \<and>
   0x8000 < (99 :: uint16) - lastSeq (fst (Push NewSeqTracker 100)) \<and>
   snd (Push (fst (Push NewSeqTracker 100)) 99) = 0 \<and>
   totalLost (fst (Push (fst (Push NewSeqTracker 100)) 99)) = 0 \<and>
   totalPkts (fst (Push (fst (Push NewSeqTracker 100)) 99)) = 2"
proof -
  have i: "initialized (fst (Push NewSeqTracker 100))"
    by code_simp
  have d: "0x8000 < (99 :: uint16) - lastSeq (fst (Push NewSeqTracker 100))"
    by code_simp
  have l: "totalLost (fst (Push NewSeqTracker 100)) = 0"
    by code_simp
  have t: "totalPkts (fst (Push NewSeqTracker 100)) + 1 = 2"
    by code_simp
  note r = C1_backward_push [OF i d]
  have r2: "totalLost (fst (Push (fst (Push NewSeqTracker 100)) 99)) = 0"
    using r [THEN conjunct2, THEN conjunct1] by (simp only: l)
  have r3: "totalPkts (fst (Push (fst (Push NewSeqTracker 100)) 99)) = 2"
    using r [THEN conjunct2, THEN conjunct2] by (simp only: t)
  show ?thesis
    using i d r [THEN conjunct1] r2 r3 by (intro conjI)
qed

section \<open>Sequence tracker: duplicates\<close>

text \<open>
  C2, as the specification states it, fails: the second push of 100 raises
  \<open>totalPkts\<close> from 1 to 2.
\<close>

theorem C2_duplicate_counterexample:
  "totalPkts (fst (Push NewSeqTracker 100)) = 1 \<and>
   lastSeq (fst (Push NewSeqTracker 100)) = 100 \<and>
   totalPkts (fst (Push (fst (Push NewSeqTracker 100)) 100)) = 2"
  by code_simp

text \<open>
  C2, amended. On an initialized tracker a push of \<open>lastSeq\<close> returns 0, leaves
  \<open>totalLost\<close> (and \<open>lastSeq\<close>, \<open>cycles\<close>, \<open>maxSeq\<close>) unchanged and adds one to
  \<open>totalPkts\<close>. Inserting such a duplicate anywhere in a stream, after a prefix \<open>xs\<close>
  that leaves the tracker initialized, changes nothing in the final tracker but
  \<open>totalPkts\<close>, which is one higher: the final \<open>totalLost\<close> is the same.
\<close>

theorem C2_duplicate_push:
  assumes "initialized (pushes t xs)"
  shows "Push (pushes t xs) (lastSeq (pushes t xs)) =
           ((pushes t xs)\<lparr>totalPkts := totalPkts (pushes t xs) + 1\<rparr>, 0) \<and>
         pushes t (xs @ lastSeq (pushes t xs) # ys) =
           (pushes t (xs @ ys))\<lparr>totalPkts := totalPkts (pushes t (xs @ ys)) + 1\<rparr>"
  using assms by (simp add: pushes_append Push_duplicate pushes_totalPkts_shift)

theorem C2_duplicate_push_witness:
  "initialized (pushes NewSeqTracker [100, 105]) \<and>
   lastSeq (pushes NewSeqTracker [100, 105]) = 105 \<and>
   snd (Push (pushes NewSeqTracker [100, 105]) 105) = 0 \<and>
   totalLost (pushes NewSeqTracker [100, 105, 105, 107]) =
     totalLost (pushes NewSeqTracker [100, 105, 107]) \<and>
   totalPkts (pushes NewSeqTracker [100, 105, 105, 107]) =
     totalPkts (pushes NewSeqTracker [100, 105, 107]) + 1"
proof -
  have i: "initialized (pushes NewSeqTracker [100, 105])"
    by code_simp
  have l: "lastSeq (pushes NewSeqTracker [100, 105]) = 105"
    by code_simp
  have z: "snd (Push (pushes NewSeqTracker [100, 105]) 105) = 0"
    using C2_duplicate_push [OF i] l by (simp del: pushes.simps)
  have e: "pushes NewSeqTracker [100, 105, 105, 107] =
           (pushes NewSeqTracker [100, 105, 107])
             \<lparr>totalPkts := totalPkts (pushes NewSeqTracker [100, 105, 107]) + 1\<rparr>"
    using C2_duplicate_push [OF i, of "[107]"] l by (simp del: pushes.simps)
  have el: "totalLost (pushes NewSeqTracker [100, 105, 105, 107]) =
            totalLost (pushes NewSeqTracker [100, 105, 107])"
    by (subst e) simp
  have ep: "totalPkts (pushes NewSeqTracker [100, 105, 105, 107]) =
            totalPkts (pushes NewSeqTracker [100, 105, 107]) + 1"
    by (subst e) simp
  show ?thesis
    using i l z el ep by blast
qed

section \<open>Sequence tracker: boundary behaviour\<close>

text \<open>
  C3. A fresh tracker fed 65534, 65535, 0, 1 ends with four packets, no loss and one
  cycle; a fresh tracker fed 65533 then 2 ends with four packets lost and one cycle:
  the loss is computed across the 16-bit wrap.
\<close>

theorem C3_wrap_boundaries:
  "totalPkts (pushes NewSeqTracker [65534, 65535, 0, 1]) = 4 \<and>
   totalLost (pushes NewSeqTracker [65534, 65535, 0, 1]) = 0 \<and>
   cycles (pushes NewSeqTracker [65534, 65535, 0, 1]) = 1 \<and>
   totalLost (pushes NewSeqTracker [65533, 2]) = 4 \<and>
   cycles (pushes NewSeqTracker [65533, 2]) = 1"
  by code_simp

section \<open>RTP processing\<close>



text \<open>
  What \<open>processRTPPacket\<close> does with a packet of at least 12 bytes: it pushes the
  big-endian sequence number of bytes 2 and 3, adds the loss returned by the push to the
  aggregator, adds one packet, and adds the length to the client's own byte counter.
\<close>

lemma processRTPPacket_effect:
  assumes "12 \<le> length data"
  shows "processRTPPacket c agg data =
     (let seq = ucast (data ! 3) OR push_bit 8 (ucast (data ! 2));
          t = fst (Push (tracker c) seq); l = snd (Push (tracker c) seq)
      in (c\<lparr>tracker := t, packetsRcvd := packetsRcvd c + 1,
            bytesReceived := bytesReceived c + of_nat (length data)\<rparr>,
          agg\<lparr>lost := lost agg + l, packets := packets agg + 1\<rparr>))"
  using assms
  by (auto simp add: processRTPPacket_def AddLoss_def AddPackets_def Let_def
      BigEndian_Uint16_def word_gt_0 split: prod.splits)

lemma processRTPPacket_bytes:
  "bytes (snd (processRTPPacket c agg data)) = bytes agg"
  by (simp add: processRTPPacket_def AddLoss_def AddPackets_def Let_def split: prod.splits)

text \<open>
  C4. The claim has RTP processing always call \<open>aggregator.add_bytes(len)\<close>. The code
  does not: on the twelve-byte packet with sequence number 100, handed to a fresh client
  and a fresh aggregator, the aggregator ends with one packet and with \<open>bytes = 0\<close>;
  the length went to the client's \<open>bytesReceived\<close>. \<open>AddBytes\<close> with that length
  would have set the aggregator's \<open>bytes\<close> to 12.
\<close>

theorem C4_bytes_not_aggregated:
  "length (rtp_packet 100) = 12 \<and>
   snd (processRTPPacket (NewClient ''tcp'') NewAggregator (rtp_packet 100)) =
     \<lparr>packets = 1, lost = 0, bytes = 0\<rparr> \<and>
   bytesReceived (fst (processRTPPacket (NewClient ''tcp'') NewAggregator (rtp_packet 100))) = 12 \<and>
   bytes (AddBytes \<lparr>packets = 1, lost = 0, bytes = 0\<rparr> 12) = 12"
  by code_simp

section \<open>Interleaved frames\<close>




section \<open>Loss reported at the exit of a session\<close>

lemma Push_totalLost: "totalLost (fst (Push s x)) = totalLost s + snd (Push s x)"
  by (simp add: Push_def initSequence_def updateSequence_def Let_def split: prod.splits)

lemma processRTPPacket_lost:
  "lost (snd (processRTPPacket c agg d)) + totalLost (tracker c) =
   lost agg + totalLost (tracker (fst (processRTPPacket c agg d)))"
proof (cases "length d < 12")
  case True
  then show ?thesis by (simp add: processRTPPacket_def)
next
  case False
  obtain t l where p: "Push (tracker c) (BigEndian_Uint16 (take 2 (drop 2 d))) = (t, l)"
    by (cases "Push (tracker c) (BigEndian_Uint16 (take 2 (drop 2 d)))")
  have tl: "totalLost t = totalLost (tracker c) + l"
    using Push_totalLost [of "tracker c" "BigEndian_Uint16 (take 2 (drop 2 d))"] p by simp
  show ?thesis
    using False p tl
    by (simp add: processRTPPacket_def AddLoss_def AddPackets_def Let_def word_gt_0)
qed

lemma processDatagrams_lost:
  "lost (snd (processDatagrams c agg ds)) + totalLost (tracker c) =
   lost agg + totalLost (tracker (fst (processDatagrams c agg ds)))"
proof (induction ds arbitrary: c agg)
  case Nil
  then show ?case by simp
next
  case (Cons d ds)
  show ?case
  proof (cases "12 \<le> length d")
    case True
    obtain c1 agg1 where p: "processRTPPacket c agg d = (c1, agg1)"
      by (cases "processRTPPacket c agg d")
    have s1: "lost agg1 + totalLost (tracker c) = lost agg + totalLost (tracker c1)"
      using processRTPPacket_lost [of c agg d] p by simp
    have s2: "lost (snd (processDatagrams c1 agg1 ds)) + totalLost (tracker c1) =
              lost agg1 + totalLost (tracker (fst (processDatagrams c1 agg1 ds)))"
      by (rule Cons.IH)
    have "lost (snd (processDatagrams c1 agg1 ds)) + totalLost (tracker c) +
            totalLost (tracker c1) =
          lost agg + totalLost (tracker (fst (processDatagrams c1 agg1 ds))) +
            totalLost (tracker c1)"
      using s1 s2 by (metis (no_types, lifting) add.assoc add.commute)
    then have "lost (snd (processDatagrams c1 agg1 ds)) + totalLost (tracker c) =
          lost agg + totalLost (tracker (fst (processDatagrams c1 agg1 ds)))"
      by simp
    then show ?thesis using True p by simp
  next
    case False
    then show ?thesis using Cons.IH [of c agg] by simp
  qed
qed

text \<open>
  A session that starts with a fresh tracker on a fresh aggregator and leaves through
  \<open>reportStats\<close> has added every loss twice: once per packet, once at the exit.
\<close>

lemma runUDP_lost_counted_twice:
  "lost (snd (runUDP (NewClient tr) NewAggregator ds)) =
   2 * totalLost (tracker (fst (runUDP (NewClient tr) NewAggregator ds)))"
proof -
  obtain c1 agg1 where p: "processDatagrams (NewClient tr) NewAggregator ds = (c1, agg1)"
    by (cases "processDatagrams (NewClient tr) NewAggregator ds")
  have "lost agg1 + totalLost (tracker (NewClient tr)) =
        lost NewAggregator + totalLost (tracker c1)"
    using processDatagrams_lost [of "NewClient tr" NewAggregator ds] p by simp
  then have e: "lost agg1 = totalLost (tracker c1)"
    by (simp add: NewClient_def NewAggregator_def NewSeqTracker_def)
  show ?thesis
    using p e by (simp add: runUDP_def reportStats_def GetStats_def AddLoss_def word_gt_0)
qed

text \<open>
  C7. The claim has the aggregator's \<open>lost\<close> equal the tracker's \<open>total_lost\<close> once a
  session has processed its packets and run its exit-path report. On the packets with
  sequence numbers 100 and 105 the tracker ends with \<open>totalLost = 4\<close> and the
  aggregator with \<open>lost = 8\<close>.
\<close>

theorem C7_loss_counted_twice:
  "totalLost (tracker (fst (runUDP (NewClient ''udp'') NewAggregator
                              [rtp_packet 100, rtp_packet 105]))) = 4 \<and>
   lost (snd (runUDP (NewClient ''udp'') NewAggregator [rtp_packet 100, rtp_packet 105])) = 8"
  by code_simp

section \<open>The concurrency cap\<close>

lemma go_quot_pos: "0 \<le> a \<Longrightarrow> 0 < b \<Longrightarrow> go_quot a b = a div b"
  by (cases "a = 0") (simp_all add: go_quot_def)

text \<open>
  The capacity computed by \<open>NewRunner\<close> is the clamp of the specification exactly for
  the target counts up to 10000 and from 100000 on.
\<close>

lemma NewRunner_maxConcurrent_agrees:
  "NewRunner_maxConcurrent config = spec_concurrency_cap (Readers config)
     \<longleftrightarrow> Readers config \<le> 10000 \<or> 100000 \<le> Readers config"
proof (cases "0 \<le> Readers config")
  case True
  then show ?thesis
    by (auto simp add: NewRunner_maxConcurrent_def spec_concurrency_cap_def clamp_def
        go_quot_pos Let_def)
next
  case False
  then have "go_quot (Readers config) 10 \<le> 0"
    by (simp add: go_quot_def sgn_if)
  with False show ?thesis
    by (auto simp add: NewRunner_maxConcurrent_def spec_concurrency_cap_def clamp_def Let_def)
qed

text \<open>
  C6. The claim has the semaphore capacity equal \<open>clamp(N/10, 10000, 50000)\<close>, never
  below 10000. For the target count 20000 \<open>NewRunner\<close> computes the capacity 2000,
  where the clamp is 10000.
\<close>

theorem C6_cap_below_floor:
  "NewRunner_maxConcurrent (example_config\<lparr>Readers := 20000\<rparr>) = 2000 \<and>
   spec_concurrency_cap 20000 = 10000"
  by (simp add: NewRunner_maxConcurrent_def spec_concurrency_cap_def clamp_def go_quot_def)

section \<open>The real-world target\<close>

text \<open>
  The rounding on known \<open>float64\<close> values: 0.3 is \<open>5404319552844595 / 2^54\<close>, the sum
  of 0.1 and 0.2 is the next value above it, \<open>1 - 0.3\<close> is a tie that goes to the even
  significand of 0.7, and \<open>2^64 - 1\<close> rounds up to \<open>2^64\<close>.
\<close>

lemma f64_round_examples:
  "f64_round (3 / 10) = 5404319552844595 / 2 ^ 54"
  "f64_add (f64_round (1 / 10)) (f64_round (2 / 10)) = 5404319552844596 / 2 ^ 54"
  "f64_sub 1 (f64_round (3 / 10)) = f64_round (7 / 10)"
  "f64_round (2 ^ 64 - 1) = 2 ^ 64"
  by code_simp+

text \<open>The conversion to \<open>int64\<close> truncates towards zero and gives the smallest value out of range.\<close>

lemma int64_of_f64_examples:
  "int64_of_f64 (7 / 2) = 3"
  "int64_of_f64 (- 7 / 2) = - 3"
  "int64_of_f64 (2 ^ 63) = - (2 ^ 63)"
  "int64_of_f64 (- (2 ^ 63)) = - (2 ^ 63)"
  by code_simp+

text \<open>Whatever the new target, the stored one lies between the two bounds if they are in order.\<close>

lemma adjustTargetLoad_clamped:
  assumes "int64_of_f64 (f64_mul (f64_of_int (AvgConnections config))
                          (f64_sub 1 (Variance config))) \<le>
           int64_of_f64 (f64_mul (f64_of_int (AvgConnections config))
                          (f64_add 1 (Variance config)))"
  shows "int64_of_f64 (f64_mul (f64_of_int (AvgConnections config))
                         (f64_sub 1 (Variance config))) \<le> adjustTargetLoad config hour u \<and>
         adjustTargetLoad config hour u \<le>
           int64_of_f64 (f64_mul (f64_of_int (AvgConnections config))
                          (f64_add 1 (Variance config)))"
  using assms by (simp add: adjustTargetLoad_def Let_def)

lemma target_bounds_500:
  "int64_of_f64 (f64_mul (f64_of_int 500) (f64_sub 1 (f64_round (3 / 10)))) = 350"
  "int64_of_f64 (f64_mul (f64_of_int 500) (f64_add 1 (f64_round (3 / 10)))) = 650"
  by code_simp+

text \<open>
  C8. With \<open>avg = 500\<close> and \<open>variance = 0.3\<close> (the \<open>float64\<close> nearest to 0.3), the
  target stored by \<open>adjustTargetLoad\<close> lies in \<open>[350, 650]\<close> for every hour and every
  random draw: the two bounds computed in \<open>float64\<close> are exactly 350 and 650, and the
  new target is clamped between them.
\<close>

theorem C8_target_in_range:
  "350 \<le> adjustTargetLoad (config\<lparr>AvgConnections := 500, Variance := f64_round (3 / 10)\<rparr>)
            hour u \<and>
   adjustTargetLoad (config\<lparr>AvgConnections := 500, Variance := f64_round (3 / 10)\<rparr>)
            hour u \<le> 650"
  by (simp add: adjustTargetLoad_def Let_def target_bounds_500)

section \<open>Session lifetimes\<close>

lemma addConnection_duration_long:
  "30 * Second < Duration config \<Longrightarrow>
   addConnection_duration config raw =
     Some (30 * Second + raw mod (Duration config - 30 * Second))"
  by (simp add: addConnection_duration_def Int63n_def Let_def)

lemma addConnection_duration_short:
  "Duration config \<le> 30 * Second \<Longrightarrow>
   addConnection_duration config raw = Some (30 * Second + raw mod (5 * Minute - 30 * Second))"
  by (simp add: addConnection_duration_def Int63n_def Let_def Minute_def Second_def)

lemma offset_mod_range:
  fixes raw n lo :: int
  assumes "0 < n"
  shows "lo \<le> lo + raw mod n \<and> lo + raw mod n < lo + n"
  using assms pos_mod_sign [of n raw] pos_mod_bound [of n raw] by simp

lemma offset_mod_hit:
  fixes v n lo :: int
  assumes "lo \<le> v" and "v < lo + n"
  shows "lo + (v - lo) mod n = v"
  using assms by simp

text \<open>
  C9, as the specification states it, fails at \<open>D = 30 s\<close>: the lifetime is then drawn
  below 5 minutes, and the draw 1 gives 30 s and one nanosecond, which is above \<open>D\<close>.
\<close>

theorem C9_lifetime_counterexample:
  "addConnection_duration (example_config\<lparr>Duration := 30 * Second\<rparr>) 1 =
     Some (30 * Second + 1) \<and>
   \<not> 30 * Second + 1 \<le> Duration (example_config\<lparr>Duration := 30 * Second\<rparr>)"
  by (simp add: addConnection_duration_def Int63n_def Second_def Minute_def)

text \<open>
  C9, amended. For a configured duration \<open>D\<close> above 30 s the lifetime is 30 s plus a
  draw from \<open>[0, D - 30 s)\<close>: it lies in \<open>[30 s, D)\<close>, and every value of that interval
  is the lifetime for exactly the draw that is 30 s less. For \<open>D\<close> of 30 s or less the
  same holds with 5 minutes in place of \<open>D\<close>.
\<close>

theorem C9_lifetime_range:
  "(30 * Second < Duration config \<longrightarrow>
      (\<exists>r. addConnection_duration config raw = Some r \<and> 30 * Second \<le> r \<and>
           r < Duration config) \<and>
      (\<forall>v. 30 * Second \<le> v \<and> v < Duration config \<longrightarrow>
           addConnection_duration config (v - 30 * Second) = Some v)) \<and>
   (Duration config \<le> 30 * Second \<longrightarrow>
      (\<exists>r. addConnection_duration config raw = Some r \<and> 30 * Second \<le> r \<and>
           r < 5 * Minute) \<and>
      (\<forall>v. 30 * Second \<le> v \<and> v < 5 * Minute \<longrightarrow>
           addConnection_duration config (v - 30 * Second) = Some v))"
proof (intro conjI impI allI)
  assume d: "30 * Second < Duration config"
  show "\<exists>r. addConnection_duration config raw = Some r \<and> 30 * Second \<le> r \<and>
            r < Duration config"
    using d offset_mod_range [of "Duration config - 30 * Second" "30 * Second" raw]
    by (simp add: addConnection_duration_long)
next
  fix v
  assume d: "30 * Second < Duration config"
    and v: "30 * Second \<le> v \<and> v < Duration config"
  show "addConnection_duration config (v - 30 * Second) = Some v"
    using d v offset_mod_hit [of "30 * Second" v "Duration config - 30 * Second"]
    by (simp add: addConnection_duration_long)
next
  assume d: "Duration config \<le> 30 * Second"
  have "0 < 5 * Minute - 30 * Second"
    by (simp add: Minute_def Second_def)
  then show "\<exists>r. addConnection_duration config raw = Some r \<and> 30 * Second \<le> r \<and>
                 r < 5 * Minute"
    using d offset_mod_range [of "5 * Minute - 30 * Second" "30 * Second" raw]
    by (simp add: addConnection_duration_short)
next
  fix v
  assume d: "Duration config \<le> 30 * Second"
    and v: "30 * Second \<le> v \<and> v < 5 * Minute"
  show "addConnection_duration config (v - 30 * Second) = Some v"
    using d v offset_mod_hit [of "30 * Second" v "5 * Minute - 30 * Second"]
    by (simp add: addConnection_duration_short)
qed

theorem C9_lifetime_range_witness:
  "30 * Second < Duration example_config \<and>
   (\<exists>r. addConnection_duration example_config 7 = Some r \<and> 30 * Second \<le> r \<and>
        r < Duration example_config) \<and>
   addConnection_duration example_config (45 * Second - 30 * Second) = Some (45 * Second) \<and>
   Duration (example_config\<lparr>Duration := 10 * Second\<rparr>) \<le> 30 * Second \<and>
   (\<exists>r. addConnection_duration (example_config\<lparr>Duration := 10 * Second\<rparr>) 7 = Some r \<and>
        30 * Second \<le> r \<and> r < 5 * Minute)"
proof -
  have a: "30 * Second < Duration example_config"
    by (simp add: example_config_def Second_def)
  have b: "Duration (example_config\<lparr>Duration := 10 * Second\<rparr>) \<le> 30 * Second"
    by (simp add: Second_def)
  have v: "30 * Second \<le> 45 * Second \<and> 45 * Second < Duration example_config"
    by (simp add: example_config_def Second_def)
  note long = C9_lifetime_range [of example_config 7, THEN conjunct1, THEN mp, OF a]
  note short =
    C9_lifetime_range [of "example_config\<lparr>Duration := 10 * Second\<rparr>" 7,
      THEN conjunct2, THEN mp, OF b]
  show ?thesis
    using a b long [THEN conjunct1] long [THEN conjunct2, THEN spec, THEN mp, OF v]
      short [THEN conjunct1]
    by (intro conjI)
qed

section \<open>The loss rate of a snapshot\<close>

lemma pow2_pos: "0 < pow2 e"
  by (simp add: pow2_def)

lemma pow2_powi: "pow2 e = 2 powi e"
  by (simp add: pow2_def power_int_def field_simps)

lemma round_half_even_of_int: "round_half_even (of_int m) = m"
  by (simp add: round_half_even_def)

lemma floor_le_round_half_even: "\<lfloor>x\<rfloor> \<le> round_half_even x"
  by (simp add: round_half_even_def Let_def)

lemma ilog2_lower:
  assumes "1 \<le> x"
  shows "pow2 (ilog2 x) \<le> x"
proof -
  have p: "0 < \<lfloor>x\<rfloor>" using assms by simp
  have k: "0 \<le> bitlen \<lfloor>x\<rfloor> - 1" using p by (simp add: bitlen_alt_def)
  have "(2::int) ^ nat (bitlen \<lfloor>x\<rfloor> - 1) \<le> \<lfloor>x\<rfloor>"
    using bitlen_bounds [OF p] by simp
  then have "of_int ((2::int) ^ nat (bitlen \<lfloor>x\<rfloor> - 1)) \<le> (of_int \<lfloor>x\<rfloor> :: rat)"
    by (simp only: of_int_le_iff)
  also have "\<dots> \<le> x" by simp
  finally show ?thesis using assms k by (simp add: ilog2_def pow2_def)
qed

text \<open>Rounding a value of at least 1 gives a positive value: no positive count becomes 0.\<close>

lemma f64_round_pos:
  assumes "1 \<le> x"
  shows "0 < f64_round x"
proof -
  let ?e = "ilog2 x - 52"
  have x: "0 < x" using assms by simp
  have "pow2 (ilog2 x) = pow2 ?e * 2 ^ 52"
    by (simp add: pow2_powi power_int_diff)
  then have "pow2 ?e * 2 ^ 52 \<le> x" using ilog2_lower [OF assms] by simp
  then have "2 ^ 52 \<le> x / pow2 ?e"
    using pow2_pos [of ?e] by (simp add: field_simps)
  then have "1 \<le> x / pow2 ?e" by simp
  then have "1 \<le> \<lfloor>x / pow2 ?e\<rfloor>" by (simp add: le_floor_iff)
  then have "0 < round_half_even (x / pow2 ?e)"
    using floor_le_round_half_even [of "x / pow2 ?e"] by linarith
  then show ?thesis
    using x pow2_pos [of ?e] by (simp add: f64_round_def Let_def)
qed

lemma f64_of_uint64_nonzero:
  assumes "n \<noteq> 0"
  shows "f64_of_uint64 n \<noteq> 0"
proof -
  have "1 \<le> unat n" using assms by (simp add: Suc_le_eq unat_gt_0)
  then have "(of_nat 1 :: rat) \<le> of_nat (unat n)" by (simp only: of_nat_le_iff)
  then have "(1 :: rat) \<le> of_nat (unat n)" by (simp only: of_nat_1)
  then have "0 < f64_round (of_nat (unat n))" by (rule f64_round_pos)
  then show ?thesis unfolding f64_of_uint64_def by (rule less_imp_neq [symmetric])
qed

text \<open>Integers below \<open>2^53\<close> are \<open>float64\<close> values: rounding leaves them alone.\<close>

lemma f64_round_exact_int:
  assumes "0 < n" and "n < 2 ^ 53"
  shows "f64_round (of_int n) = of_int n"
proof -
  define j where "j = nat (53 - bitlen n)"
  have b1: "1 \<le> bitlen n" using assms(1) by (simp add: bitlen_alt_def)
  have b2: "bitlen n \<le> 53" using assms(2) by (simp add: bitlen_le_iff_power)
  have e: "ilog2 (of_int n) - 52 = - int j"
    using assms(1) b2 by (simp add: ilog2_def j_def)
  have p: "pow2 (- int j) = 1 / 2 ^ j"
    by (simp add: pow2_def)
  have "of_int n * 2 ^ j = (of_int (n * 2 ^ j) :: rat)"
    by simp
  then have r: "round_half_even (of_int n * 2 ^ j) = n * 2 ^ j"
    by (simp only: round_half_even_of_int)
  show ?thesis
    using assms(1) by (simp add: f64_round_def Let_def e r p)
qed

lemma f64_round_exact_nat:
  assumes "n < 2 ^ 53"
  shows "f64_round (of_nat n) = of_nat n"
proof (cases "n = 0")
  case True
  then show ?thesis by (simp add: f64_round_def)
next
  case False
  have "int n < 2 ^ 53" using assms by (simp add: of_nat_less_numeral_power_cancel_iff)
  then have "f64_round (of_int (int n)) = of_int (int n)"
    using False by (intro f64_round_exact_int) simp_all
  then show ?thesis by simp
qed

lemma LossRate_small:
  assumes "unat (Packets s) + unat (Lost s) < 2 ^ 53" and "100 * unat (Lost s) < 2 ^ 53"
    and "0 < unat (Packets s) + unat (Lost s)"
  shows "LossRate s =
           Some (f64_round (of_nat (100 * unat (Lost s)) /
                            of_nat (unat (Packets s) + unat (Lost s))))"
proof -
  have t: "unat (Packets s + Lost s) = unat (Packets s) + unat (Lost s)"
    using assms(1) by (simp add: unat_word_ariths)
  then have nz: "Packets s + Lost s \<noteq> 0"
    using assms(3) by (metis less_irrefl unat_0 unsigned_0)
  have l: "unat (Lost s) < 2 ^ 53" using assms(2) by simp
  have a: "f64_of_uint64 (Lost s) = of_nat (unat (Lost s))"
    unfolding f64_of_uint64_def by (rule f64_round_exact_nat [OF l])
  have b: "f64_of_uint64 (Packets s + Lost s) = of_nat (unat (Packets s) + unat (Lost s))"
    unfolding f64_of_uint64_def t by (rule f64_round_exact_nat [OF assms(1)])
  have eq: "(of_nat (unat (Lost s)) :: rat) * 100 = of_nat (100 * unat (Lost s))"
    by (simp only: of_nat_mult of_nat_numeral mult.commute)
  have m: "f64_mul (f64_of_uint64 (Lost s)) 100 = of_nat (100 * unat (Lost s))"
    unfolding f64_mul_def a eq by (rule f64_round_exact_nat [OF assms(2)])
  have nzb: "f64_of_uint64 (Packets s + Lost s) \<noteq> 0"
    by (rule f64_of_uint64_nonzero [OF nz])
  have "LossRate s =
        f64_div (f64_mul (f64_of_uint64 (Lost s)) 100) (f64_of_uint64 (Packets s + Lost s))"
    using nz by (simp add: LossRate_def)
  also have "\<dots> = Some (f64_round (f64_mul (f64_of_uint64 (Lost s)) 100 /
                                  f64_of_uint64 (Packets s + Lost s)))"
    using nzb by (simp add: f64_div_def)
  also have "\<dots> = Some (f64_round (of_nat (100 * unat (Lost s)) /
                                  of_nat (unat (Packets s) + unat (Lost s))))"
    by (simp only: m b)
  finally show ?thesis .
qed

text \<open>
  C10, as stated, fails on the value: with one packet received and one lost,
  \<open>LossRate\<close> returns 50, not the quotient one half.
\<close>

theorem C10_LossRate_counterexample:
  "LossRate \<lparr>Packets = 1, Lost = 1, Bytes = 0\<rparr> = Some 50"
  by code_simp

text \<open>
  C10, amended. \<open>LossRate\<close> is total. When the 64-bit sum \<open>packets + lost\<close> is 0 it
  returns 0 and divides nothing. Otherwise the divisor \<open>float64(total)\<close> is not zero
  and the result is \<open>float64(lost) * 100 / float64(total)\<close>, the loss as a percentage;
  for counters small enough to be exact in \<open>float64\<close> and a sum that does not wrap,
  that is \<open>100 * lost / (packets + lost)\<close> rounded once.
\<close>

theorem C10_LossRate_total:
  "(Packets s + Lost s = 0 \<longrightarrow> LossRate s = Some 0) \<and>
   (Packets s + Lost s \<noteq> 0 \<longrightarrow>
      f64_of_uint64 (Packets s + Lost s) \<noteq> 0 \<and>
      LossRate s =
        Some (f64_round (f64_round (f64_of_uint64 (Lost s) * 100) /
                         f64_of_uint64 (Packets s + Lost s)))) \<and>
   (unat (Packets s) + unat (Lost s) < 2 ^ 53 \<and> 100 * unat (Lost s) < 2 ^ 53 \<and>
    0 < unat (Packets s) + unat (Lost s) \<longrightarrow>
      LossRate s =
        Some (f64_round (of_nat (100 * unat (Lost s)) /
                         of_nat (unat (Packets s) + unat (Lost s)))))"
proof (intro conjI impI)
  assume "Packets s + Lost s = 0"
  then show "LossRate s = Some 0"
    by (simp add: LossRate_def)
next
  assume "Packets s + Lost s \<noteq> 0"
  then show "f64_of_uint64 (Packets s + Lost s) \<noteq> 0"
    by (rule f64_of_uint64_nonzero)
next
  assume "Packets s + Lost s \<noteq> 0"
  then show "LossRate s =
        Some (f64_round (f64_round (f64_of_uint64 (Lost s) * 100) /
                         f64_of_uint64 (Packets s + Lost s)))"
    by (simp add: LossRate_def f64_div_def f64_mul_def f64_of_uint64_nonzero)
next
  assume "unat (Packets s) + unat (Lost s) < 2 ^ 53 \<and> 100 * unat (Lost s) < 2 ^ 53 \<and>
          0 < unat (Packets s) + unat (Lost s)"
  then show "LossRate s =
        Some (f64_round (of_nat (100 * unat (Lost s)) /
                         of_nat (unat (Packets s) + unat (Lost s))))"
    by (intro LossRate_small) simp_all
qed

theorem C10_LossRate_total_witness:
  "Packets \<lparr>Packets = 3, Lost = 1, Bytes = 0\<rparr> + Lost \<lparr>Packets = 3, Lost = 1, Bytes = 0\<rparr> \<noteq> 0 \<and>
   f64_of_uint64 (Packets \<lparr>Packets = 3, Lost = 1, Bytes = 0\<rparr> +
                  Lost \<lparr>Packets = 3, Lost = 1, Bytes = 0\<rparr>) \<noteq> 0 \<and>
   LossRate \<lparr>Packets = 3, Lost = 1, Bytes = 0\<rparr> = Some 25 \<and>
   Packets \<lparr>Packets = 0, Lost = 0, Bytes = 0\<rparr> + Lost \<lparr>Packets = 0, Lost = 0, Bytes = 0\<rparr> = 0 \<and>
   LossRate \<lparr>Packets = 0, Lost = 0, Bytes = 0\<rparr> = Some 0"
proof -
  let ?s = "\<lparr>Packets = 3, Lost = 1, Bytes = 0\<rparr>"
  let ?z = "\<lparr>Packets = 0, Lost = 0, Bytes = 0\<rparr>"
  have nz: "Packets ?s + Lost ?s \<noteq> 0"
    by simp
  have z: "Packets ?z + Lost ?z = 0"
    by simp
  have ev: "f64_round (f64_round (f64_of_uint64 (Lost ?s) * 100) /
                       f64_of_uint64 (Packets ?s + Lost ?s)) = 25"
    by code_simp
  note pos = C10_LossRate_total [of ?s, THEN conjunct2, THEN conjunct1, THEN mp, OF nz]
  note zero = C10_LossRate_total [of ?z, THEN conjunct1, THEN mp, OF z]
  have r: "LossRate ?s = Some 25"
    using pos [THEN conjunct2] by (simp only: ev)
  show ?thesis
    using nz pos [THEN conjunct1] r z zero by (intro conjI)
qed

end
